theory Spec2Isabelle
  imports Complex_Main "HOL-Library.AList"
begin

section \<open>Data model of the streaming engine\<close>

text \<open>
  The development embeds \<^verbatim>\<open>backend/realtime/stream_handler.py\<close> and the listing
  route of \<^verbatim>\<open>backend/api/routes/websocket.py\<close>.

  Byte strings are lists of 8-bit characters. Decoded images and detected faces are
  opaque values of the image library and of the face model, so they stay type
  parameters. A call into a library that can raise returns a \<open>result\<close>:
  \<open>Raises\<close> when it raises, \<open>Returns v\<close> otherwise.
\<close>

type_synonym bytes = "char list"

datatype 'a result = Raises | Returns 'a

text \<open>
  What \<^verbatim>\<open>json.loads\<close> does with a text: it raises \<^verbatim>\<open>JSONDecodeError\<close>, it
  raises another exception (\<^verbatim>\<open>ValueError\<close> on an integer beyond the digit limit,
  \<^verbatim>\<open>RecursionError\<close> on deep nesting), or it returns the parsed value. A Python
  number is an \<^verbatim>\<open>int\<close> or a \<^verbatim>\<open>float\<close>.
\<close>

datatype number = PyInt int | PyFloat real

datatype json =
    JNull
  | JBool bool
  | JInt int
  | JFloat real
  | JStr string
  | JArr "json list"
  | JObj "(string \<times> json) list"

datatype loads_outcome = JSONDecodeError | OtherError | Parsed json

text \<open>
  \<^verbatim>\<open>StreamSession\<close>. The connection is a handle. The attribute
  \<^verbatim>\<open>_target_embedding\<close> is not a declared field: \<^verbatim>\<open>_process_frame_internal\<close>
  creates it on first use and tests it with \<^verbatim>\<open>hasattr\<close>, so \<open>None\<close> stands for
  "attribute absent". Timestamps and the frame rate are Python floats; they are
  modelled as reals (the rounding of the quotient is abstracted, the test for a zero
  divisor is exact). The field \<^verbatim>\<open>fps\<close> starts as the \<^verbatim>\<open>int\<close> 0 of the class
  declaration and becomes a \<^verbatim>\<open>float\<close> at the first frame rate computed;
  \<^verbatim>\<open>get_stats\<close> shows the difference, so the field is a \<open>number\<close>.
\<close>

record ('img, 'face) StreamSession =
  websocket :: nat
  target_face :: "'img option"
  is_processing :: bool
  frames_processed :: int
  last_frame_time :: real
  fps :: number
  target_embedding :: "'face option"

text \<open>
  The collaborators the handler calls: OpenCV's codec, the two InsightFace models,
  the wall clock, the JSON parser and \<^verbatim>\<open>round(x, 1)\<close>. \<open>clock env n\<close> is the
  value of the \<open>n\<close>-th call of \<^verbatim>\<open>time.time()\<close>. The three flags say whether
  \<^verbatim>\<open>core.face_swap\<close> can be imported, whether \<^verbatim>\<open>insightface\<close> is installed and
  whether the file \<^verbatim>\<open>inswapper_128.onnx\<close> exists. \<^verbatim>\<open>cv2.imencode\<close> returns a
  success flag and a buffer; \<^verbatim>\<open>process_frame\<close> discards the flag, so \<open>imencode\<close>
  is the buffer alone, empty when the encoder fails without raising.
\<close>

record ('img, 'face) env =
  imdecode :: "bytes \<Rightarrow> 'img option result"
  imencode :: "'img \<Rightarrow> bytes result"
  face_get :: "'img \<Rightarrow> 'face list result"
  swapper_get :: "'img \<Rightarrow> 'face \<Rightarrow> 'face \<Rightarrow> 'img result"
  clock :: "nat \<Rightarrow> real"
  face_swap_importable :: bool
  insightface_installed :: bool
  swapper_model_exists :: bool
  json_loads :: "string \<Rightarrow> loads_outcome"
  round1 :: "real \<Rightarrow> real"

text \<open>
  The process state: the dictionary \<^verbatim>\<open>StreamManager.sessions\<close> (insertion ordered,
  as a Python \<^verbatim>\<open>dict\<close>), the two module globals of \<^verbatim>\<open>core.face_swap\<close>
  (\<open>True\<close> when the global is not \<^verbatim>\<open>None\<close>) and the number of clock readings
  taken so far. The field \<^verbatim>\<open>_face_swapper\<close> of the manager is never read and is
  left out.
\<close>

record ('img, 'face) world =
  sessions :: "(string \<times> ('img, 'face) StreamSession) list"
  face_analysis_loaded :: bool
  swapper_loaded :: bool
  ticks :: nat

definition time_time ::
  "('img, 'face) env \<Rightarrow> ('img, 'face) world \<Rightarrow> real \<times> ('img, 'face) world" where
  "time_time env w = (clock env (ticks w), w\<lparr>ticks := Suc (ticks w)\<rparr>)"

section \<open>StreamManager\<close>

definition new_session :: "nat \<Rightarrow> ('img, 'face) StreamSession" where
  "new_session ws =
     \<lparr>websocket = ws, target_face = None, is_processing = False, frames_processed = 0,
      last_frame_time = 0, fps = PyInt 0, target_embedding = None\<rparr>"

definition connect ::
  "('img, 'face) world \<Rightarrow> nat \<Rightarrow> string \<Rightarrow> ('img, 'face) StreamSession \<times> ('img, 'face) world" where
  "connect w ws session_id =
     (let session = new_session ws
      in (session, w\<lparr>sessions := AList.update session_id session (sessions w)\<rparr>))"

definition disconnect :: "('img, 'face) world \<Rightarrow> string \<Rightarrow> ('img, 'face) world" where
  "disconnect w session_id =
     (if map_of (sessions w) session_id \<noteq> None
      then w\<lparr>sessions := AList.delete session_id (sessions w)\<rparr>
      else w)"

definition set_target_face ::
  "('img, 'face) env \<Rightarrow> ('img, 'face) world \<Rightarrow> string \<Rightarrow> bytes \<Rightarrow> bool \<times> ('img, 'face) world" where
  "set_target_face env w session_id face_data =
     (case map_of (sessions w) session_id of
        None \<Rightarrow> (False, w)
      | Some session \<Rightarrow>
          (case imdecode env face_data of
             Raises \<Rightarrow> (False, w)
           | Returns None \<Rightarrow> (False, w)
           | Returns (Some img) \<Rightarrow>
               (True, w\<lparr>sessions :=
                  AList.update session_id (session\<lparr>target_face := Some img\<rparr>) (sessions w)\<rparr>)))"

text \<open>
  \<^verbatim>\<open>_init_models\<close> of \<^verbatim>\<open>core/face_swap.py\<close>: returns at once when the analysis
  model is loaded; raises when \<^verbatim>\<open>insightface\<close> is missing; assigns the analysis
  model before it looks for the swapper file, and raises when that file is missing.
\<close>

definition init_models ::
  "('img, 'face) env \<Rightarrow> ('img, 'face) world \<Rightarrow> unit result \<times> ('img, 'face) world" where
  "init_models env w =
     (if face_analysis_loaded w then (Returns (), w)
      else if \<not> insightface_installed env then (Raises, w)
      else if \<not> swapper_model_exists env then (Raises, w\<lparr>face_analysis_loaded := True\<rparr>)
      else (Returns (), w\<lparr>face_analysis_loaded := True, swapper_loaded := True\<rparr>))"

text \<open>
  Lines 145 to 158 of \<^verbatim>\<open>_process_frame_internal\<close>: detect the faces of the frame
  and swap the first one. \<open>fa\<close> and \<open>sw\<close> say whether the local names
  \<^verbatim>\<open>_face_analysis\<close> and \<^verbatim>\<open>_swapper\<close> are bound to a model; a call on \<^verbatim>\<open>None\<close>
  raises \<^verbatim>\<open>AttributeError\<close>, and every exception gives the frame back.
\<close>

definition swap_first_face ::
  "('img, 'face) env \<Rightarrow> bool \<Rightarrow> bool \<Rightarrow> 'img \<Rightarrow> 'face \<Rightarrow> 'img" where
  "swap_first_face env fa sw frame embedding =
     (if \<not> fa then frame
      else (case face_get env frame of
              Raises \<Rightarrow> frame
            | Returns [] \<Rightarrow> frame
            | Returns (f # _) \<Rightarrow>
                (if \<not> sw then frame
                 else (case swapper_get env frame f embedding of
                         Raises \<Rightarrow> frame
                       | Returns res \<Rightarrow> res))))"

text \<open>
  \<^verbatim>\<open>_process_frame_internal\<close>. The statement
  \<^verbatim>\<open>from core.face_swap import _face_analysis, _swapper, _init_models\<close> binds the local
  names to the values the module globals have at that moment; \<^verbatim>\<open>_init_models\<close>
  assigns the globals only, so the locals \<open>fa\<close> and \<open>sw\<close> keep the values read
  before it ran.
\<close>

definition process_frame_internal ::
  "('img, 'face) env \<Rightarrow> ('img, 'face) world \<Rightarrow> ('img, 'face) StreamSession \<Rightarrow> 'img
     \<Rightarrow> 'img \<times> ('img, 'face) world \<times> ('img, 'face) StreamSession" where
  "process_frame_internal env w session frame =
     (case target_face session of
        None \<Rightarrow> (frame, w, session)
      | Some tf \<Rightarrow>
          (if \<not> face_swap_importable env then (frame, w, session)
           else
             (let fa = face_analysis_loaded w;
                  sw = swapper_loaded w;
                  (r, w1) = (if \<not> fa then init_models env w else (Returns (), w))
              in (case r of
                    Raises \<Rightarrow> (frame, w1, session)
                  | Returns _ \<Rightarrow>
                      (case target_embedding session of
                         Some emb \<Rightarrow> (swap_first_face env fa sw frame emb, w1, session)
                       | None \<Rightarrow>
                           (if \<not> fa then (frame, w1, session)
                            else (case face_get env tf of
                                    Raises \<Rightarrow> (frame, w1, session)
                                  | Returns [] \<Rightarrow> (frame, w1, session)
                                  | Returns (f # _) \<Rightarrow>
                                      (swap_first_face env fa sw frame f, w1,
                                       session\<lparr>target_embedding := Some f\<rparr>))))))))"

text \<open>
  The \<^verbatim>\<open>try\<close> block of \<^verbatim>\<open>process_frame\<close> (lines 87 to 112) on the session
  object: the result, and the session as the block leaves it. The counter is
  incremented before the frame rate is computed; \<^verbatim>\<open>1.0 / (now - last_frame_time)\<close>
  raises \<^verbatim>\<open>ZeroDivisionError\<close> when the two readings are equal, and the handler
  of the block turns every exception into \<^verbatim>\<open>None\<close>.
\<close>

definition frame_try ::
  "('img, 'face) env \<Rightarrow> ('img, 'face) world \<Rightarrow> ('img, 'face) StreamSession \<Rightarrow> bytes
     \<Rightarrow> bytes option \<times> ('img, 'face) world \<times> ('img, 'face) StreamSession" where
  "frame_try env w session frame_data =
     (case imdecode env frame_data of
        Raises \<Rightarrow> (None, w, session)
      | Returns None \<Rightarrow> (None, w, session)
      | Returns (Some frame) \<Rightarrow>
          (case process_frame_internal env w session frame of
             (processed, w1, session1) \<Rightarrow>
               (case imencode env processed of
                  Raises \<Rightarrow> (None, w1, session1)
                | Returns buffer \<Rightarrow>
                    (let session2 = session1\<lparr>frames_processed := frames_processed session1 + 1\<rparr>;
                         (now, w2) = time_time env w1
                     in if last_frame_time session2 > 0
                        then (if now - last_frame_time session2 = 0
                              then (None, w2, session2)
                              else (Some buffer, w2,
                                    session2\<lparr>fps := PyFloat (1 / (now - last_frame_time session2)),
                                             last_frame_time := now\<rparr>))
                        else (Some buffer, w2, session2\<lparr>last_frame_time := now\<rparr>)))))"

text \<open>
  \<^verbatim>\<open>process_frame\<close>: unknown session and busy session return \<^verbatim>\<open>None\<close> at once;
  otherwise the flag is set, the clock is read (\<^verbatim>\<open>start_time\<close>), the block runs and
  the \<^verbatim>\<open>finally\<close> clause clears the flag.
\<close>

definition process_frame ::
  "('img, 'face) env \<Rightarrow> ('img, 'face) world \<Rightarrow> string \<Rightarrow> bytes
     \<Rightarrow> bytes option \<times> ('img, 'face) world" where
  "process_frame env w session_id frame_data =
     (case map_of (sessions w) session_id of
        None \<Rightarrow> (None, w)
      | Some session \<Rightarrow>
          (if is_processing session then (None, w)
           else
             (let busy = session\<lparr>is_processing := True\<rparr>;
                  (start_time, w1) = time_time env w
              in (case frame_try env w1 busy frame_data of
                    (r, w2, session') \<Rightarrow>
                      (r, w2\<lparr>sessions :=
                             AList.update session_id (session'\<lparr>is_processing := False\<rparr>)
                               (sessions w2)\<rparr>)))))"

text \<open>
  The same function cut at the point where the work starts, to speak about a frame
  that is in flight: \<open>process_frame_enter\<close> is lines 77 to 85 (\<open>None\<close> when the call
  returns early), \<open>process_frame_run\<close> is lines 87 to 115 on the admitted session.
\<close>

definition process_frame_enter ::
  "('img, 'face) env \<Rightarrow> ('img, 'face) world \<Rightarrow> string \<Rightarrow> ('img, 'face) world option" where
  "process_frame_enter env w session_id =
     (case map_of (sessions w) session_id of
        None \<Rightarrow> None
      | Some session \<Rightarrow>
          (if is_processing session then None
           else Some ((snd (time_time env w))\<lparr>sessions :=
                  AList.update session_id (session\<lparr>is_processing := True\<rparr>) (sessions w)\<rparr>)))"

definition process_frame_run ::
  "('img, 'face) env \<Rightarrow> ('img, 'face) world \<Rightarrow> string \<Rightarrow> bytes
     \<Rightarrow> bytes option \<times> ('img, 'face) world" where
  "process_frame_run env w session_id frame_data =
     (case map_of (sessions w) session_id of
        None \<Rightarrow> (None, w)
      | Some session \<Rightarrow>
          (case frame_try env w session frame_data of
             (r, w2, session') \<Rightarrow>
               (r, w2\<lparr>sessions :=
                      AList.update session_id (session'\<lparr>is_processing := False\<rparr>)
                        (sessions w2)\<rparr>)))"

definition get_stats ::
  "('img, 'face) env \<Rightarrow> ('img, 'face) world \<Rightarrow> string \<Rightarrow> (string \<times> json) list" where
  "get_stats env w session_id =
     (case map_of (sessions w) session_id of
        None \<Rightarrow> []
      | Some session \<Rightarrow>
          [(''frames_processed'', JInt (frames_processed session)),
           (''fps'', (case fps session of
                       PyInt n \<Rightarrow> JInt n
                     | PyFloat x \<Rightarrow> JFloat (round1 env x))),
           (''has_target_face'', JBool (target_face session \<noteq> None))])"

section \<open>The listing route\<close>

record listing =
  active_sessions :: nat
  listed :: "(string \<times> (string \<times> json) list) list"

definition list_stream_sessions ::
  "('img, 'face) env \<Rightarrow> ('img, 'face) world \<Rightarrow> listing" where
  "list_stream_sessions env w =
     \<lparr>active_sessions = length (sessions w),
      listed = map (\<lambda>sid. (sid, get_stats env w sid)) (map fst (sessions w))\<rparr>"

section \<open>The dispatcher\<close>

text \<open>
  A received message is a disconnect notification or a \<^verbatim>\<open>websocket.receive\<close> event
  that carries the key \<^verbatim>\<open>bytes\<close>, the key \<^verbatim>\<open>text\<close>, both or neither (\<open>None\<close>
  is "key absent"). What the handler writes is a JSON object or a binary message.
\<close>

datatype ws_message = Disconnect | Receive "bytes option" "string option"

datatype ws_send = SendJson "(string \<times> json) list" | SendBytes bytes

datatype flow = Continue | Break | Raise

datatype status = Listening | Disconnected | Crashed

definition dict_unpack :: "(string \<times> json) list \<Rightarrow> (string \<times> json) list \<Rightarrow> (string \<times> json) list" where
  "dict_unpack base extra = fold (\<lambda>(k, v). AList.update k v) extra base"

text \<open>
  The text branch (lines 217 to 231). \<^verbatim>\<open>JSONDecodeError\<close> is the one exception
  the branch catches; any other exception of \<^verbatim>\<open>json.loads\<close> leaves the loop. Only a
  JSON object has the method \<^verbatim>\<open>get\<close>: on any other parsed value \<^verbatim>\<open>data.get\<close>
  raises \<^verbatim>\<open>AttributeError\<close>, which leaves the loop as well.
\<close>

definition handle_text ::
  "('img, 'face) env \<Rightarrow> ('img, 'face) world \<Rightarrow> string \<Rightarrow> string \<Rightarrow> ws_send list \<times> flow" where
  "handle_text env w session_id txt =
     (case json_loads env txt of
        JSONDecodeError \<Rightarrow> ([], Continue)
      | OtherError \<Rightarrow> ([], Raise)
      | Parsed (JObj data) \<Rightarrow>
          (let cmd = map_of data ''command''
           in if cmd = Some (JStr ''stats'')
              then ([SendJson (dict_unpack [(''type'', JStr ''stats'')] (get_stats env w session_id))],
                    Continue)
              else if cmd = Some (JStr ''ping'')
              then ([SendJson [(''type'', JStr ''pong'')]], Continue)
              else ([], Continue))
      | Parsed _ \<Rightarrow> ([], Raise))"

text \<open>
  One turn of the loop. \<^verbatim>\<open>if result:\<close> tests the truth value of the bytes, so an
  empty byte string is not sent.
\<close>

definition handle_message ::
  "('img, 'face) env \<Rightarrow> ('img, 'face) world \<Rightarrow> string \<Rightarrow> ws_message
     \<Rightarrow> ws_send list \<times> ('img, 'face) world \<times> flow" where
  "handle_message env w session_id message =
     (case message of
        Disconnect \<Rightarrow> ([], w, Break)
      | Receive (Some frame_data) _ \<Rightarrow>
          (if take 4 frame_data = ''FACE''
           then (case set_target_face env w session_id (drop 4 frame_data) of
                   (success, w') \<Rightarrow>
                     ([SendJson [(''type'', JStr ''face_set''), (''success'', JBool success)]],
                      w', Continue))
           else (case process_frame env w session_id frame_data of
                   (res, w') \<Rightarrow>
                     (case res of
                        None \<Rightarrow> ([], w', Continue)
                      | Some b \<Rightarrow> (if b \<noteq> [] then [SendBytes b] else [], w', Continue))))
      | Receive None (Some txt) \<Rightarrow>
          (case handle_text env w session_id txt of (out, fl) \<Rightarrow> (out, w, fl))
      | Receive None None \<Rightarrow> ([], w, Continue))"

text \<open>
  The loop over the messages that arrive. When the list is used up the handler waits
  for the next message (\<open>Listening\<close>).
\<close>

fun receive_loop ::
  "('img, 'face) env \<Rightarrow> ('img, 'face) world \<Rightarrow> string \<Rightarrow> ws_message list
     \<Rightarrow> ws_send list \<times> ('img, 'face) world \<times> status" where
  "receive_loop env w session_id [] = ([], w, Listening)"
| "receive_loop env w session_id (m # ms) =
     (case handle_message env w session_id m of
        (out, w', Continue) \<Rightarrow>
          (case receive_loop env w' session_id ms of
             (out', w'', st) \<Rightarrow> (out @ out', w'', st))
      | (out, w', Break) \<Rightarrow> (out, w', Disconnected)
      | (out, w', Raise) \<Rightarrow> (out, w', Crashed))"

text \<open>
  \<^verbatim>\<open>websocket_stream_handler\<close>: connect, loop, and in the \<^verbatim>\<open>finally\<close> clause
  remove the session, which runs once the loop is left.
\<close>

definition websocket_stream_handler ::
  "('img, 'face) env \<Rightarrow> ('img, 'face) world \<Rightarrow> nat \<Rightarrow> string \<Rightarrow> ws_message list
     \<Rightarrow> ws_send list \<times> ('img, 'face) world \<times> status" where
  "websocket_stream_handler env w ws session_id msgs =
     (case connect w ws session_id of
        (session, w0) \<Rightarrow>
          (case receive_loop env w0 session_id msgs of
             (out, w1, st) \<Rightarrow>
               (out, if st = Listening then w1 else disconnect w1 session_id, st)))"

section \<open>Frames sent one after the other\<close>

text \<open>
  The outputs of \<^verbatim>\<open>process_frame\<close> on a sequence of frames, each call made after
  the previous one has returned.
\<close>

fun process_frames ::
  "('img, 'face) env \<Rightarrow> ('img, 'face) world \<Rightarrow> string \<Rightarrow> bytes list
     \<Rightarrow> bytes option list \<times> ('img, 'face) world" where
  "process_frames env w session_id [] = ([], w)"
| "process_frames env w session_id (f # fs) =
     (case process_frame env w session_id f of
        (r, w') \<Rightarrow>
          (case process_frames env w' session_id fs of
             (rs, w'') \<Rightarrow> (r # rs, w'')))"

section \<open>A concrete environment\<close>

text \<open>
  A small environment on which the functions are evaluated. An image file is a tag
  (\<open>PNG:\<close> or \<open>JPG:\<close>) followed by the picture; the decoder raises on an empty
  buffer, reads both formats and yields no image for anything else; the encoder
  always writes the \<open>JPG:\<close> format. A picture shows the face named by its first
  character, and none when that character is a dash; swapping puts the reference
  face in its place. The parser knows the few texts used below, each with the value
  \<^verbatim>\<open>json.loads\<close> gives it, and rejects the rest. The clock advances by one second
  at every reading.
\<close>

definition sample_imdecode :: "bytes \<Rightarrow> string option result" where
  "sample_imdecode data =
     (if data = [] then Raises
      else if take 4 data = ''PNG:'' \<or> take 4 data = ''JPG:'' then Returns (Some (drop 4 data))
      else Returns None)"

definition sample_face_get :: "string \<Rightarrow> char list result" where
  "sample_face_get img =
     (case img of
        [] \<Rightarrow> Returns []
      | c # _ \<Rightarrow> (if c = CHR ''-'' then Returns [] else Returns [c]))"

definition sample_json_loads :: "string \<Rightarrow> loads_outcome" where
  \<open>sample_json_loads txt =
     (if txt = ''{"command": "ping"}'' then Parsed (JObj [(''command'', JStr ''ping'')])
      else if txt = ''{"command": "stats"}'' then Parsed (JObj [(''command'', JStr ''stats'')])
      else if txt = ''{"command": "dance"}'' then Parsed (JObj [(''command'', JStr ''dance'')])
      else if txt = ''{}'' then Parsed (JObj [])
      else if txt = ''null'' then Parsed JNull
      else if txt = ''[1]'' then Parsed (JArr [JInt 1])
      else JSONDecodeError)\<close>

definition sample_env :: "(string, char) env" where
  "sample_env =
     \<lparr>imdecode = sample_imdecode,
      imencode = (\<lambda>img. Returns (''JPG:'' @ img)),
      face_get = sample_face_get,
      swapper_get = (\<lambda>frame f target. Returns (target # tl frame)),
      clock = (\<lambda>n. 1000 + real n),
      face_swap_importable = True,
      insightface_installed = True,
      swapper_model_exists = True,
      json_loads = sample_json_loads,
      round1 = (\<lambda>x. real_of_int (round (x * 10)) / 10)\<rparr>"

text \<open>The same environment with a clock of coarse resolution: eight readings in a row
  give the same second.\<close>

definition coarse_env :: "(string, char) env" where
  "coarse_env = sample_env\<lparr>clock := (\<lambda>n. 1000 + real (n div 8))\<rparr>"


definition empty_world :: "(string, char) world" where
  "empty_world =
     \<lparr>sessions = [], face_analysis_loaded = False, swapper_loaded = False, ticks = 0\<rparr>"

text \<open>A registry with one session that has processed seven frames on connection 1.\<close>

definition seven_frames :: "(string, char) StreamSession" where
  "seven_frames =
     \<lparr>websocket = 1, target_face = Some ''Alice'', is_processing = False,
      frames_processed = 7, last_frame_time = 990, fps = PyFloat 25,
      target_embedding = Some CHR ''A''\<rparr>"

definition one_session_world :: "(string, char) world" where
  "one_session_world =
     \<lparr>sessions = [(''s1'', seven_frames)], face_analysis_loaded = True,
      swapper_loaded = True, ticks = 0\<rparr>"

section \<open>Registry operations\<close>

lemma map_of_session_update:
  "map_of (AList.update k v al) k' = (if k' = k then Some v else map_of al k')"
  by (simp add: update_conv')

text \<open>
  Claim C10. An operation called with a session identifier that is not in the
  registry does nothing and raises nothing: \<open>set_target_face\<close> returns false and
  leaves the whole state as it is, \<open>process_frame\<close> returns \<open>None\<close> on the unchanged
  state, \<open>get_stats\<close> returns the empty dictionary, and so the reply to a
  \<open>stats\<close> command carries the field \<open>type\<close> and nothing else.
\<close>

theorem unknown_session_noop:
  assumes "map_of (sessions w) sid = None"
  shows "set_target_face env w sid face_data = (False, w)
       \<and> process_frame env w sid frame_data = (None, w)
       \<and> get_stats env w sid = []
       \<and> dict_unpack [(''type'', JStr ''stats'')] (get_stats env w sid) = [(''type'', JStr ''stats'')]
       \<and> (json_loads env txt = Parsed (JObj data) \<and> map_of data ''command'' = Some (JStr ''stats'')
            \<longrightarrow> handle_text env w sid txt = ([SendJson [(''type'', JStr ''stats'')]], Continue))"
  using assms
  by (simp add: set_target_face_def process_frame_def get_stats_def handle_text_def dict_unpack_def)

theorem unknown_session_noop_witness:
  \<open>map_of (sessions empty_world) ''ghost'' = None
   \<and> set_target_face sample_env empty_world ''ghost'' ''JPG:Alice'' = (False, empty_world)
   \<and> process_frame sample_env empty_world ''ghost'' ''JPG:xframe'' = (None, empty_world)
   \<and> get_stats sample_env empty_world ''ghost'' = []
   \<and> handle_text sample_env empty_world ''ghost'' ''{"command": "stats"}''
       = ([SendJson [(''type'', JStr ''stats'')]], Continue)\<close>
proof -
  have h: "map_of (sessions empty_world) ''ghost'' = None"
    by (simp add: empty_world_def)
  have p: \<open>json_loads sample_env ''{"command": "stats"}'' = Parsed (JObj [(''command'', JStr ''stats'')])\<close>
    by (simp add: sample_env_def sample_json_loads_def)
  show ?thesis
    using h p
      unknown_session_noop [OF h, of sample_env "''JPG:Alice''" "''JPG:xframe''"
        \<open>''{"command": "stats"}''\<close> "[(''command'', JStr ''stats'')]"]
    by simp
qed

text \<open>
  Claim C9. Removing a session identifier is idempotent: a second removal leaves the
  registry as the first one left it, removing an identifier that is absent changes
  nothing (the function has no path that raises), and after the removal neither the
  registry nor the listing of the administrative route contains the identifier.
\<close>

theorem disconnect_idempotent:
  "disconnect (disconnect w sid) sid = disconnect w sid
   \<and> (map_of (sessions w) sid = None \<longrightarrow> disconnect w sid = w)
   \<and> map_of (sessions (disconnect w sid)) sid = None
   \<and> sid \<notin> fst ` set (listed (list_stream_sessions env (disconnect w sid)))"
proof -
  have gone: "map_of (sessions (disconnect w sid)) sid = None"
    by (simp add: disconnect_def delete_conv')
  have twice: "disconnect (disconnect w sid) sid = disconnect w sid"
    using gone by (simp add: disconnect_def [of "disconnect w sid"])
  have absent: "map_of (sessions w) sid = None \<longrightarrow> disconnect w sid = w"
    by (simp add: disconnect_def)
  have "fst ` set (listed (list_stream_sessions env (disconnect w sid)))
          = fst ` set (sessions (disconnect w sid))"
    by (simp add: list_stream_sessions_def image_image)
  moreover have "sid \<notin> fst ` set (sessions (disconnect w sid))"
    using gone by (simp add: map_of_eq_None_iff)
  ultimately show ?thesis using gone twice absent by simp
qed

theorem disconnect_idempotent_witness:
  "map_of (sessions one_session_world) ''s1'' = Some seven_frames
   \<and> map_of (sessions (disconnect one_session_world ''s1'')) ''s1'' = None
   \<and> disconnect (disconnect one_session_world ''s1'') ''s1'' = disconnect one_session_world ''s1''
   \<and> listed (list_stream_sessions sample_env (disconnect one_session_world ''s1'')) = []
   \<and> disconnect empty_world ''s1'' = empty_world"
proof -
  have a: "map_of (sessions empty_world) ''s1'' = None"
    by (simp add: empty_world_def)
  have b: "sessions (disconnect one_session_world ''s1'') = []"
    by (simp add: disconnect_def one_session_world_def)
  show ?thesis
    using a b disconnect_idempotent [of one_session_world "''s1''" sample_env]
      disconnect_idempotent [of empty_world "''s1''" sample_env]
    by (simp add: one_session_world_def list_stream_sessions_def)
qed

text \<open>
  Claim C6, as stated: creating a session under an identifier that is already in the
  registry fails instead of replacing the session bound to it. The source assigns
  \<^verbatim>\<open>self.sessions[session_id] = session\<close> without looking: on a registry where
  \<open>s1\<close> is bound to a session with seven processed frames, \<open>connect\<close> returns a new
  session and \<open>s1\<close> is bound to it afterwards.
\<close>

theorem connect_replaces_counterexample:
  "map_of (sessions one_session_world) ''s1'' = Some seven_frames
   \<and> fst (connect one_session_world 2 ''s1'') = new_session 2
   \<and> map_of (sessions (snd (connect one_session_world 2 ''s1''))) ''s1'' = Some (new_session 2)
   \<and> frames_processed seven_frames = 7
   \<and> frames_processed (new_session 2 :: (string, char) StreamSession) = 0"
  by (simp add: connect_def Let_def one_session_world_def seven_frames_def new_session_def)

text \<open>
  Claim C6, amended. \<open>connect\<close> always succeeds: it returns a fresh session on the
  new connection (no reference face, not busy, counters at zero) and binds the
  identifier to it, replacing the session bound to that identifier if there was one;
  the sessions bound to other identifiers are untouched and the keys of the registry
  stay unique.
\<close>

theorem connect_binds_fresh_session:
  "fst (connect w ws sid) = new_session ws
   \<and> map_of (sessions (snd (connect w ws sid))) sid = Some (new_session ws)
   \<and> (\<forall>sid'. sid' \<noteq> sid \<longrightarrow>
         map_of (sessions (snd (connect w ws sid))) sid' = map_of (sessions w) sid')
   \<and> (distinct (map fst (sessions w)) \<longrightarrow>
         distinct (map fst (sessions (snd (connect w ws sid)))))"
  by (simp add: connect_def Let_def map_of_session_update distinct_update)

theorem connect_binds_fresh_session_witness:
  "distinct (map fst (sessions one_session_world))
   \<and> fst (connect one_session_world 2 ''s2'') = new_session 2
   \<and> map_of (sessions (snd (connect one_session_world 2 ''s2''))) ''s2'' = Some (new_session 2)
   \<and> map_of (sessions (snd (connect one_session_world 2 ''s2''))) ''s1'' = Some seven_frames
   \<and> distinct (map fst (sessions (snd (connect one_session_world 2 ''s2''))))"
proof -
  have d: "distinct (map fst (sessions one_session_world))"
    by (simp add: one_session_world_def)
  have k: "map_of (sessions one_session_world) ''s1'' = Some seven_frames"
    by (simp add: one_session_world_def)
  have n: "''s1'' \<noteq> ''s2''" by simp
  show ?thesis
    using d k n connect_binds_fresh_session [of one_session_world 2 "''s2''"]
    by metis
qed

section \<open>Setting the reference face\<close>

text \<open>
  Claim C3, as stated: bytes that decode to an image in which no face is found make
  \<open>set_target_face\<close> return false. The function never calls the detector: in the
  sample environment the picture \<open>-sky\<close> shows no face, and the call returns true
  and stores the picture.
\<close>

theorem set_target_face_no_detection_counterexample:
  "imdecode sample_env ''JPG:-sky'' = Returns (Some ''-sky'')
   \<and> face_get sample_env ''-sky'' = Returns []
   \<and> set_target_face sample_env one_session_world ''s1'' ''JPG:-sky''
       = (True, one_session_world\<lparr>sessions := [(''s1'', seven_frames\<lparr>target_face := Some ''-sky''\<rparr>)]\<rparr>)"
  by (simp add: set_target_face_def sample_env_def sample_imdecode_def sample_face_get_def
      one_session_world_def)

text \<open>
  Claim C3, amended. For a registered session, bytes that fail image decoding (the
  decoder raises or yields no image) make \<open>set_target_face\<close> return false, without
  raising, and leave the whole state, so also what the session stored before,
  unchanged. Bytes that decode are accepted whether or not the picture shows a face:
  the call returns true and stores the decoded picture as the reference, and its
  outcome does not depend on the face detector.
\<close>

theorem set_target_face_decode_only:
  assumes "map_of (sessions w) sid = Some s"
  shows "(imdecode env data = Raises \<or> imdecode env data = Returns None
            \<longrightarrow> set_target_face env w sid data = (False, w))
       \<and> (\<forall>img. imdecode env data = Returns (Some img)
            \<longrightarrow> set_target_face env w sid data
                  = (True, w\<lparr>sessions := AList.update sid (s\<lparr>target_face := Some img\<rparr>) (sessions w)\<rparr>))
       \<and> set_target_face (env\<lparr>face_get := g\<rparr>) w sid data = set_target_face env w sid data"
  using assms by (auto simp: set_target_face_def)

theorem set_target_face_decode_only_witness:
  "map_of (sessions one_session_world) ''s1'' = Some seven_frames
   \<and> imdecode sample_env ''GIF:Bob'' = Returns None
   \<and> set_target_face sample_env one_session_world ''s1'' ''GIF:Bob'' = (False, one_session_world)
   \<and> imdecode sample_env [] = Raises
   \<and> set_target_face sample_env one_session_world ''s1'' [] = (False, one_session_world)
   \<and> imdecode sample_env ''PNG:Bob'' = Returns (Some ''Bob'')
   \<and> set_target_face sample_env one_session_world ''s1'' ''PNG:Bob''
       = (True, one_session_world\<lparr>sessions :=
            AList.update ''s1'' (seven_frames\<lparr>target_face := Some ''Bob''\<rparr>) (sessions one_session_world)\<rparr>)"
proof -
  have k: "map_of (sessions one_session_world) ''s1'' = Some seven_frames"
    by (simp add: one_session_world_def)
  have a: "imdecode sample_env ''GIF:Bob'' = Returns None"
    by (simp add: sample_env_def sample_imdecode_def)
  have b: "imdecode sample_env [] = Raises"
    by (simp add: sample_env_def sample_imdecode_def)
  have c: "imdecode sample_env ''PNG:Bob'' = Returns (Some ''Bob'')"
    by (simp add: sample_env_def sample_imdecode_def)
  show ?thesis
    using k a b c
      set_target_face_decode_only [OF k, of sample_env "''GIF:Bob''"]
      set_target_face_decode_only [OF k, of sample_env "[]"]
      set_target_face_decode_only [OF k, of sample_env "''PNG:Bob''"]
    by simp
qed

section \<open>What one call of process_frame does to a session\<close>

lemma init_models_sessions: "sessions (snd (init_models env w)) = sessions w"
  by (simp add: init_models_def)

lemma init_models_update_sessions:
  "init_models env (w\<lparr>sessions := x\<rparr>)
     = (fst (init_models env w), (snd (init_models env w))\<lparr>sessions := x\<rparr>)"
  by (simp add: init_models_def)

lemma process_frame_internal_no_target:
  "target_face s = None \<Longrightarrow> process_frame_internal env w s frame = (frame, w, s)"
  by (simp add: process_frame_internal_def)

lemma process_frame_internal_keeps:
  assumes "process_frame_internal env w s frame = (p, w1, s1)"
  shows "sessions w1 = sessions w \<and> ticks w1 = ticks w
       \<and> s1\<lparr>target_embedding := e\<rparr> = s\<lparr>target_embedding := e\<rparr>"
  using assms
  by (auto simp: process_frame_internal_def init_models_def Let_def
      split: option.splits if_splits result.splits list.splits prod.splits)

lemma process_frame_internal_update_sessions:
  "process_frame_internal env (w\<lparr>sessions := x\<rparr>) s frame
     = (case process_frame_internal env w s frame of (p, w1, s1) \<Rightarrow> (p, w1\<lparr>sessions := x\<rparr>, s1))"
  by (auto simp: process_frame_internal_def init_models_def Let_def
      split: option.splits if_splits result.splits list.splits prod.splits)

lemma frame_try_keeps:
  assumes "frame_try env w s d = (r, w2, s2)"
  shows "sessions w2 = sessions w
       \<and> websocket s2 = websocket s
       \<and> target_face s2 = target_face s
       \<and> is_processing s2 = is_processing s
       \<and> (frames_processed s2 = frames_processed s \<or> frames_processed s2 = frames_processed s + 1)
       \<and> (r \<noteq> None \<longrightarrow> frames_processed s2 = frames_processed s + 1)"
proof (cases "imdecode env d")
  case Raises
  with assms show ?thesis by (simp add: frame_try_def)
next
  case (Returns oi)
  show ?thesis
  proof (cases oi)
    case None
    with Returns assms show ?thesis by (simp add: frame_try_def)
  next
    case (Some frame)
    obtain p w1 s1 where pfi: "process_frame_internal env w s frame = (p, w1, s1)"
      by (cases "process_frame_internal env w s frame") auto
    from process_frame_internal_keeps [OF pfi, of "target_embedding s"]
    have k: "sessions w1 = sessions w" "s1\<lparr>target_embedding := target_embedding s\<rparr> = s"
      by simp_all
    have f: "websocket s1 = websocket s" "target_face s1 = target_face s"
      "is_processing s1 = is_processing s" "frames_processed s1 = frames_processed s"
      using arg_cong [OF k(2), of websocket] arg_cong [OF k(2), of target_face]
        arg_cong [OF k(2), of is_processing] arg_cong [OF k(2), of frames_processed]
      by simp_all
    from assms Returns Some pfi k(1) f show ?thesis
      by (auto simp: frame_try_def time_time_def Let_def split: result.splits if_splits)
  qed
qed

lemma frame_try_encoded:
  assumes "frame_try env w s d = (Some b, w2, s2)"
  shows "\<exists>img p. imdecode env d = Returns (Some img) \<and> imencode env p = Returns b
           \<and> (target_face s = None \<longrightarrow> p = img)"
  using assms
  by (auto simp: frame_try_def time_time_def Let_def process_frame_internal_no_target
      split: result.splits option.splits prod.splits if_splits)

lemma frame_try_update_sessions:
  "frame_try env (w\<lparr>sessions := x\<rparr>) s d
     = (case frame_try env w s d of (r, w2, s2) \<Rightarrow> (r, w2\<lparr>sessions := x\<rparr>, s2))"
  by (auto simp: frame_try_def time_time_def Let_def process_frame_internal_update_sessions
      split: result.splits option.splits prod.splits if_splits)

lemma process_frame_admitted:
  assumes "map_of (sessions w) sid = Some s" and "\<not> is_processing s"
    and "frame_try env (snd (time_time env w)) (s\<lparr>is_processing := True\<rparr>) d = (r, w2, s2)"
  shows "process_frame env w sid d
           = (r, w2\<lparr>sessions := AList.update sid (s2\<lparr>is_processing := False\<rparr>) (sessions w)\<rparr>)"
proof -
  have "sessions w2 = sessions (snd (time_time env w))"
    using frame_try_keeps [OF assms(3)] by simp
  then have "sessions w2 = sessions w" by (simp add: time_time_def)
  with assms show ?thesis
    by (simp add: process_frame_def Let_def split_beta)
qed

lemma process_frame_session:
  assumes "map_of (sessions w) sid = Some s" and "\<not> is_processing s"
  shows "\<exists>s'. map_of (sessions (snd (process_frame env w sid d))) sid = Some s'
           \<and> \<not> is_processing s'
           \<and> websocket s' = websocket s
           \<and> target_face s' = target_face s
           \<and> (frames_processed s' = frames_processed s \<or> frames_processed s' = frames_processed s + 1)
           \<and> (fst (process_frame env w sid d) \<noteq> None \<longrightarrow> frames_processed s' = frames_processed s + 1)"
proof -
  obtain r w2 s2 where
    ft: "frame_try env (snd (time_time env w)) (s\<lparr>is_processing := True\<rparr>) d = (r, w2, s2)"
    by (cases "frame_try env (snd (time_time env w)) (s\<lparr>is_processing := True\<rparr>) d") auto
  note pf = process_frame_admitted [OF assms ft]
  from frame_try_keeps [OF ft] show ?thesis
    by (simp add: pf map_of_session_update)
qed

lemma process_frame_output:
  assumes "process_frame env w sid d = (Some b, w')"
  shows "\<exists>s img p. map_of (sessions w) sid = Some s \<and> imdecode env d = Returns (Some img)
           \<and> imencode env p = Returns b \<and> (target_face s = None \<longrightarrow> p = img)"
proof (cases "map_of (sessions w) sid")
  case None
  with assms show ?thesis by (simp add: process_frame_def)
next
  case (Some s)
  show ?thesis
  proof (cases "is_processing s")
    case True
    with Some assms show ?thesis by (simp add: process_frame_def)
  next
    case False
    obtain r w2 s2 where
      ft: "frame_try env (snd (time_time env w)) (s\<lparr>is_processing := True\<rparr>) d = (r, w2, s2)"
      by (cases "frame_try env (snd (time_time env w)) (s\<lparr>is_processing := True\<rparr>) d") auto
    from process_frame_admitted [OF Some False ft] assms have "r = Some b" by simp
    with ft frame_try_encoded [of env "snd (time_time env w)" "s\<lparr>is_processing := True\<rparr>" d b w2 s2]
    show ?thesis using Some by auto
  qed
qed

lemma process_frame_target_face:
  assumes "map_of (sessions w) sid = Some s"
  shows "\<exists>s'. map_of (sessions (snd (process_frame env w sid d))) sid = Some s'
           \<and> target_face s' = target_face s"
proof (cases "is_processing s")
  case True
  with assms show ?thesis by (simp add: process_frame_def)
next
  case False
  from process_frame_session [OF assms False, of env d] show ?thesis by blast
qed

lemma process_frame_decode_failure:
  assumes "map_of (sessions w) sid = Some s" and "\<not> is_processing s"
    and "imdecode env d = Raises \<or> imdecode env d = Returns None"
  shows "fst (process_frame env w sid d) = None
       \<and> map_of (sessions (snd (process_frame env w sid d))) sid = Some s"
proof -
  have ft: "frame_try env (snd (time_time env w)) (s\<lparr>is_processing := True\<rparr>) d
              = (None, snd (time_time env w), s\<lparr>is_processing := True\<rparr>)"
    using assms(3) by (auto simp: frame_try_def)
  have restored: "s\<lparr>is_processing := True\<rparr>\<lparr>is_processing := False\<rparr> = s"
    using assms(2) by simp
  show ?thesis
    by (simp add: process_frame_admitted [OF assms(1,2) ft] restored map_of_session_update)
qed

lemma frame_try_counts:
  assumes "imdecode env d = Returns (Some img)" and "\<forall>p. imencode env p \<noteq> Raises"
    and "frame_try env w s d = (r, w2, s2)"
  shows "frames_processed s2 = frames_processed s + 1"
proof -
  obtain p w1 s1 where pfi: "process_frame_internal env w s img = (p, w1, s1)"
    by (cases "process_frame_internal env w s img") auto
  from process_frame_internal_keeps [OF pfi, of "target_embedding s"]
  have "s1\<lparr>target_embedding := target_embedding s\<rparr> = s" by simp
  from arg_cong [OF this, of frames_processed]
  have same: "frames_processed s1 = frames_processed s" by simp
  obtain buffer where enc: "imencode env p = Returns buffer"
    using assms(2) by (cases "imencode env p") auto
  from assms(1,3) pfi enc same show ?thesis
    by (auto simp: frame_try_def time_time_def Let_def split: if_splits)
qed

lemma process_frame_counts:
  assumes "map_of (sessions w) sid = Some s" and "\<not> is_processing s"
    and "imdecode env d = Returns (Some img)" and "\<forall>p. imencode env p \<noteq> Raises"
    and "map_of (sessions (snd (process_frame env w sid d))) sid = Some s'"
  shows "frames_processed s' = frames_processed s + 1"
proof -
  obtain r w2 s2 where
    ft: "frame_try env (snd (time_time env w)) (s\<lparr>is_processing := True\<rparr>) d = (r, w2, s2)"
    by (cases "frame_try env (snd (time_time env w)) (s\<lparr>is_processing := True\<rparr>) d") auto
  from frame_try_counts [OF assms(3,4) ft]
  have "frames_processed s2 = frames_processed s + 1" by simp
  with assms(5) show ?thesis
    by (auto simp: process_frame_admitted [OF assms(1,2) ft] map_of_session_update)
qed

section \<open>Streaming without a reference face\<close>

text \<open>
  Claim C2, as stated: on a session without a reference face every output is
  byte-identical to the frame that came in. The output is what the encoder writes
  for the decoded frame, and \<open>process_frame\<close> always asks for the JPEG format: a
  frame sent in the other format on a session just connected comes back in the
  \<open>JPG:\<close> format.
\<close>

theorem passthrough_not_byte_identical_counterexample:
  "target_face (new_session 1 :: (string, char) StreamSession) = None
   \<and> fst (process_frame sample_env (snd (connect empty_world 1 ''s1'')) ''s1'' ''PNG:xframe'')
       = Some ''JPG:xframe''
   \<and> ''JPG:xframe'' \<noteq> ''PNG:xframe''"
  by code_simp

text \<open>
  Claim C2, amended. On a session without a reference face, for every sequence of
  frames processed one at a time, each result that is not \<open>None\<close> is the JPEG
  encoding of the decoded input frame: the decoded picture passes through
  unmodified, and the bytes sent back are the ones the encoder writes for it.
\<close>

theorem passthrough_is_reencoded_input:
  assumes "map_of (sessions w) sid = Some s" and "target_face s = None"
  shows "length (fst (process_frames env w sid frames)) = length frames
       \<and> (\<forall>i < length frames. \<forall>out.
            fst (process_frames env w sid frames) ! i = Some out
            \<longrightarrow> (\<exists>img. imdecode env (frames ! i) = Returns (Some img)
                        \<and> imencode env img = Returns out))"
  using assms
proof (induction frames arbitrary: w s)
  case Nil
  then show ?case by simp
next
  case (Cons f fs)
  obtain r w' where pf: "process_frame env w sid f = (r, w')"
    by (cases "process_frame env w sid f") auto
  obtain rs w'' where pfs: "process_frames env w' sid fs = (rs, w'')"
    by (cases "process_frames env w' sid fs") auto
  have whole: "fst (process_frames env w sid (f # fs)) = r # rs"
    by (simp add: pf pfs)
  from process_frame_target_face [OF Cons.prems(1), of env f] pf Cons.prems(2)
  obtain s' where s': "map_of (sessions w') sid = Some s'" "target_face s' = None"
    by auto
  from Cons.IH [OF s'] pfs
  have tl_len: "length rs = length fs"
    and tl_out: "\<And>i out. i < length fs \<Longrightarrow> rs ! i = Some out \<Longrightarrow>
          \<exists>img. imdecode env (fs ! i) = Returns (Some img) \<and> imencode env img = Returns out"
    by auto
  have hd_out: "\<exists>img. imdecode env f = Returns (Some img) \<and> imencode env img = Returns out"
    if "r = Some out" for out
  proof -
    from pf that have "process_frame env w sid f = (Some out, w')" by simp
    from process_frame_output [OF this] Cons.prems show ?thesis by auto
  qed
  have "\<exists>img. imdecode env ((f # fs) ! i) = Returns (Some img) \<and> imencode env img = Returns out"
    if "i < length (f # fs)" and "(r # rs) ! i = Some out" for i out
  proof (cases i)
    case 0
    with that hd_out show ?thesis by simp
  next
    case (Suc j)
    with that tl_out [of j out] show ?thesis by simp
  qed
  with tl_len whole show ?case by simp
qed

theorem passthrough_is_reencoded_input_witness:
  "map_of (sessions (snd (connect empty_world 1 ''s1''))) ''s1'' = Some (new_session 1)
   \<and> target_face (new_session 1 :: (string, char) StreamSession) = None
   \<and> fst (process_frames sample_env (snd (connect empty_world 1 ''s1'')) ''s1''
            [''PNG:xframe'', ''JPG:yframe''])
       = [Some ''JPG:xframe'', Some ''JPG:yframe'']
   \<and> (\<exists>img. imdecode sample_env ''PNG:xframe'' = Returns (Some img)
              \<and> imencode sample_env img = Returns ''JPG:xframe'')"
proof -
  have k: "map_of (sessions (snd (connect empty_world 1 ''s1''))) ''s1''
             = Some (new_session 1 :: (string, char) StreamSession)"
    by (simp add: connect_def Let_def empty_world_def)
  have t: "target_face (new_session 1 :: (string, char) StreamSession) = None"
    by (simp add: new_session_def)
  have run: "fst (process_frames sample_env (snd (connect empty_world 1 ''s1'')) ''s1''
                   [''PNG:xframe'', ''JPG:yframe''])
               = [Some ''JPG:xframe'', Some ''JPG:yframe'']"
    by code_simp
  from passthrough_is_reencoded_input [OF k t, of sample_env "[''PNG:xframe'', ''JPG:yframe'']"] run
  have "\<exists>img. imdecode sample_env ''PNG:xframe'' = Returns (Some img)
               \<and> imencode sample_env img = Returns ''JPG:xframe''"
    by fastforce
  with k t run show ?thesis by simp
qed

section \<open>The busy flag\<close>

lemma process_frame_phases:
  "process_frame env w sid d
     = (case process_frame_enter env w sid of
          None \<Rightarrow> (None, w)
        | Some w1 \<Rightarrow> process_frame_run env w1 sid d)"
proof (cases "map_of (sessions w) sid")
  case None
  then show ?thesis by (simp add: process_frame_def process_frame_enter_def)
next
  case (Some s)
  show ?thesis
  proof (cases "is_processing s")
    case True
    with Some show ?thesis by (simp add: process_frame_def process_frame_enter_def)
  next
    case False
    define busy where "busy = s\<lparr>is_processing := True\<rparr>"
    define w0 where "w0 = snd (time_time env w)"
    define X where "X = AList.update sid busy (sessions w)"
    obtain r w2 s2 where ft: "frame_try env w0 busy d = (r, w2, s2)"
      by (cases "frame_try env w0 busy d") auto
    have lhs: "process_frame env w sid d
                 = (r, w2\<lparr>sessions := AList.update sid (s2\<lparr>is_processing := False\<rparr>) (sessions w)\<rparr>)"
      using process_frame_admitted [OF Some False] ft by (simp add: busy_def w0_def)
    have enter: "process_frame_enter env w sid = Some (w0\<lparr>sessions := X\<rparr>)"
      using Some False by (simp add: process_frame_enter_def busy_def w0_def X_def)
    have look: "map_of (sessions (w0\<lparr>sessions := X\<rparr>)) sid = Some busy"
      by (simp add: X_def map_of_session_update)
    have ft': "frame_try env (w0\<lparr>sessions := X\<rparr>) busy d = (r, w2\<lparr>sessions := X\<rparr>, s2)"
      by (simp add: frame_try_update_sessions ft)
    have look': "map_of X sid = Some busy"
      using look by simp
    have run: "process_frame_run env (w0\<lparr>sessions := X\<rparr>) sid d
                 = (r, w2\<lparr>sessions := AList.update sid (s2\<lparr>is_processing := False\<rparr>) X\<rparr>)"
      by (simp add: process_frame_run_def look' ft')
    have "AList.update sid (s2\<lparr>is_processing := False\<rparr>) X
            = AList.update sid (s2\<lparr>is_processing := False\<rparr>) (sessions w)"
      by (simp add: X_def)
    with lhs enter run show ?thesis by simp
  qed
qed

text \<open>
  Claim C4. On a session whose busy flag is set, \<open>process_frame\<close> returns
  \<open>None\<close> at once and changes nothing. On an idle session the flag is set before
  the work starts; a second frame that arrives while the first is in flight is
  dropped, so the pair yields at most one output and the counter moves as the first
  frame alone moves it, by exactly one when the first frame yields its output, and
  by exactly one whenever the first frame decodes and the encoder does not raise; and
  when the work is over the flag is cleared, whatever the outcome (decode failure
  and exceptions included, since the statement holds for every environment and every
  frame).
\<close>

theorem busy_flag_drops_overlapping_frame:
  assumes "map_of (sessions w) sid = Some s"
  shows "(is_processing s \<longrightarrow> process_frame env w sid late = (None, w))
       \<and> (\<not> is_processing s \<longrightarrow>
            (\<exists>w1 s1 s'.
                process_frame_enter env w sid = Some w1
              \<and> map_of (sessions w1) sid = Some s1
              \<and> is_processing s1
              \<and> frames_processed s1 = frames_processed s
              \<and> process_frame env w1 sid late = (None, w1)
              \<and> process_frame_run env w1 sid inflight = process_frame env w sid inflight
              \<and> map_of (sessions (snd (process_frame_run env w1 sid inflight))) sid = Some s'
              \<and> \<not> is_processing s'
              \<and> (frames_processed s' = frames_processed s
                   \<or> frames_processed s' = frames_processed s + 1)
              \<and> (fst (process_frame_run env w1 sid inflight) \<noteq> None
                   \<longrightarrow> frames_processed s' = frames_processed s + 1)
              \<and> ((\<exists>img. imdecode env inflight = Returns (Some img))
                    \<and> (\<forall>p. imencode env p \<noteq> Raises)
                   \<longrightarrow> frames_processed s' = frames_processed s + 1)))"
proof (cases "is_processing s")
  case True
  with assms show ?thesis by (simp add: process_frame_def)
next
  case False
  define s1 where "s1 = s\<lparr>is_processing := True\<rparr>"
  define w1 where
    "w1 = (snd (time_time env w))\<lparr>sessions := AList.update sid s1 (sessions w)\<rparr>"
  have enter: "process_frame_enter env w sid = Some w1"
    using assms False by (simp add: process_frame_enter_def w1_def s1_def)
  have look: "map_of (sessions w1) sid = Some s1"
    by (simp add: w1_def map_of_session_update)
  have flag: "is_processing s1" "frames_processed s1 = frames_processed s"
    by (simp_all add: s1_def)
  have dropped: "process_frame env w1 sid late = (None, w1)"
    using look flag(1) by (simp add: process_frame_def)
  have same: "process_frame_run env w1 sid inflight = process_frame env w sid inflight"
    using process_frame_phases [of env w sid inflight] enter by simp
  from process_frame_session [OF assms False, of env inflight]
  obtain s' where after:
    "map_of (sessions (snd (process_frame env w sid inflight))) sid = Some s'"
    "\<not> is_processing s'"
    "frames_processed s' = frames_processed s \<or> frames_processed s' = frames_processed s + 1"
    "fst (process_frame env w sid inflight) \<noteq> None \<longrightarrow> frames_processed s' = frames_processed s + 1"
    by blast
  have counted: "(\<exists>img. imdecode env inflight = Returns (Some img))
                    \<and> (\<forall>p. imencode env p \<noteq> Raises)
                   \<longrightarrow> frames_processed s' = frames_processed s + 1"
    using process_frame_counts [OF assms False _ _ after(1)] by blast
  from False enter look flag dropped same after counted show ?thesis
    by (intro conjI impI exI [of _ w1] exI [of _ s1] exI [of _ s']) simp_all
qed

theorem busy_flag_drops_overlapping_frame_witness:
  "map_of (sessions one_session_world) ''s1'' = Some seven_frames
   \<and> \<not> is_processing seven_frames
   \<and> imdecode sample_env ''JPG:xframe'' = Returns (Some ''xframe'')
   \<and> (\<forall>p. imencode sample_env p \<noteq> Raises)
   \<and> (\<exists>w1. process_frame_enter sample_env one_session_world ''s1'' = Some w1
          \<and> process_frame sample_env w1 ''s1'' ''JPG:yframe'' = (None, w1)
          \<and> fst (process_frame_run sample_env w1 ''s1'' ''JPG:xframe'') = Some ''JPG:Aframe''
          \<and> map_of (sessions (snd (process_frame_run sample_env w1 ''s1'' ''JPG:xframe''))) ''s1''
              = Some (seven_frames\<lparr>frames_processed := 8, fps := PyFloat (1 / 11), last_frame_time := 1001\<rparr>))
   \<and> process_frame sample_env
        (one_session_world\<lparr>sessions := [(''s1'', seven_frames\<lparr>is_processing := True\<rparr>)]\<rparr>)
        ''s1'' ''JPG:yframe''
       = (None, one_session_world\<lparr>sessions := [(''s1'', seven_frames\<lparr>is_processing := True\<rparr>)]\<rparr>)"
proof -
  have k: "map_of (sessions one_session_world) ''s1'' = Some seven_frames"
    by (simp add: one_session_world_def)
  have idle: "\<not> is_processing seven_frames"
    by (simp add: seven_frames_def)
  have k2: "map_of (sessions (one_session_world\<lparr>sessions := [(''s1'', seven_frames\<lparr>is_processing := True\<rparr>)]\<rparr>)) ''s1''
              = Some (seven_frames\<lparr>is_processing := True\<rparr>)"
    by simp
  have out: "fst (process_frame sample_env one_session_world ''s1'' ''JPG:xframe'') = Some ''JPG:Aframe''"
    by code_simp
  have st: "map_of (sessions (snd (process_frame sample_env one_session_world ''s1'' ''JPG:xframe''))) ''s1''
              = Some (seven_frames\<lparr>frames_processed := 8, fps := PyFloat (1 / 11), last_frame_time := 1001\<rparr>)"
    by code_simp
  from busy_flag_drops_overlapping_frame
         [OF k, where env = sample_env and late = "''JPG:yframe''" and inflight = "''JPG:xframe''"] idle
  obtain w1 where
    "process_frame_enter sample_env one_session_world ''s1'' = Some w1"
    "process_frame sample_env w1 ''s1'' ''JPG:yframe'' = (None, w1)"
    "process_frame_run sample_env w1 ''s1'' ''JPG:xframe''
       = process_frame sample_env one_session_world ''s1'' ''JPG:xframe''"
    by blast
  with out st have first: "\<exists>w1. process_frame_enter sample_env one_session_world ''s1'' = Some w1
          \<and> process_frame sample_env w1 ''s1'' ''JPG:yframe'' = (None, w1)
          \<and> fst (process_frame_run sample_env w1 ''s1'' ''JPG:xframe'') = Some ''JPG:Aframe''
          \<and> map_of (sessions (snd (process_frame_run sample_env w1 ''s1'' ''JPG:xframe''))) ''s1''
              = Some (seven_frames\<lparr>frames_processed := 8, fps := PyFloat (1 / 11), last_frame_time := 1001\<rparr>)"
    by auto
  from busy_flag_drops_overlapping_frame
         [OF k2, where env = sample_env and late = "''JPG:yframe''" and inflight = "''JPG:xframe''"]
  have second: "process_frame sample_env
        (one_session_world\<lparr>sessions := [(''s1'', seven_frames\<lparr>is_processing := True\<rparr>)]\<rparr>)
        ''s1'' ''JPG:yframe''
       = (None, one_session_world\<lparr>sessions := [(''s1'', seven_frames\<lparr>is_processing := True\<rparr>)]\<rparr>)"
    by simp
  have dec: "imdecode sample_env ''JPG:xframe'' = Returns (Some ''xframe'')"
    by (simp add: sample_env_def sample_imdecode_def)
  have enc: "\<forall>p. imencode sample_env p \<noteq> Raises"
    by (simp add: sample_env_def)
  from k idle dec enc first second show ?thesis by blast
qed

section \<open>Dispatching binary messages\<close>




section \<open>Text messages\<close>

lemma handle_text_unparsable:
  "json_loads env txt = JSONDecodeError \<Longrightarrow> handle_text env w sid txt = ([], Continue)"
  by (simp add: handle_text_def)

lemma handle_text_other_exception:
  "json_loads env txt = OtherError \<Longrightarrow> handle_text env w sid txt = ([], Raise)"
  by (simp add: handle_text_def)

lemma get_stats_fresh_session:
  "get_stats env (snd (connect w ws sid)) sid
     = [(''frames_processed'', JInt 0), (''fps'', JInt 0), (''has_target_face'', JBool False)]"
  by (simp add: get_stats_def connect_def Let_def map_of_session_update new_session_def)

lemma handle_text_other_command:
  assumes "json_loads env txt = Parsed (JObj data)"
    and "map_of data ''command'' \<noteq> Some (JStr ''stats'')"
    and "map_of data ''command'' \<noteq> Some (JStr ''ping'')"
  shows "handle_text env w sid txt = ([], Continue)"
  using assms by (simp add: handle_text_def)

text \<open>
  Claim C5 at the text \<open>null\<close>. The text parses, to a value that is not an object
  and so has no field \<open>command\<close>; the claim asks for no reply and an open connection
  on which a later \<open>ping\<close> is answered. \<^verbatim>\<open>data.get\<close> raises on that value, the
  exception is not the one the handler catches, the loop is left and the session is
  removed: the \<open>ping\<close> sent next gets no \<open>pong\<close>. After a text that does not parse
  the \<open>ping\<close> is answered.
\<close>

theorem non_object_json_ends_the_handler:
  \<open>json_loads sample_env ''null'' = Parsed JNull
   \<and> websocket_stream_handler sample_env empty_world 1 ''s1''
        [Receive None (Some ''null''), Receive None (Some ''{"command": "ping"}'')]
       = ([], empty_world, Crashed)
   \<and> json_loads sample_env ''{not json'' = JSONDecodeError
   \<and> websocket_stream_handler sample_env empty_world 1 ''s1''
        [Receive None (Some ''{not json''), Receive None (Some ''{"command": "ping"}'')]
       = ([SendJson [(''type'', JStr ''pong'')]], snd (connect empty_world 1 ''s1''), Listening)\<close>
  by code_simp

section \<open>A new reference face after frames were processed\<close>

text \<open>
  Claim C1 on one connection. The client sets the reference face \<open>Alice\<close>, sends
  two frames (the first loads the models and passes through, the second is swapped
  and leaves the embedding \<open>A\<close> on the session), sets the reference face \<open>Bob\<close>,
  which succeeds, and sends a third frame. The claim asks for a frame substituted
  with a descriptor of \<open>Bob\<close>; the frame comes back with the face \<open>A\<close>, and the
  session holds the picture \<open>Bob\<close> next to the embedding \<open>A\<close>. A session that only
  ever saw \<open>Bob\<close> returns the face \<open>B\<close> for the same frame.
\<close>

theorem stale_embedding_after_new_reference:
  "websocket_stream_handler sample_env empty_world 1 ''s1''
     [Receive (Some ''FACEJPG:Alice'') None,
      Receive (Some ''JPG:xframe'') None,
      Receive (Some ''JPG:xframe'') None,
      Receive (Some ''FACEJPG:Bob'') None,
      Receive (Some ''JPG:xframe'') None]
     = ([SendJson [(''type'', JStr ''face_set''), (''success'', JBool True)],
         SendBytes ''JPG:xframe'',
         SendBytes ''JPG:Aframe'',
         SendJson [(''type'', JStr ''face_set''), (''success'', JBool True)],
         SendBytes ''JPG:Aframe''],
        \<lparr>sessions =
           [(''s1'', \<lparr>websocket = 1, target_face = Some ''Bob'', is_processing = False,
                     frames_processed = 3, last_frame_time = 1005, fps = PyFloat (1 / 2),
                     target_embedding = Some CHR ''A''\<rparr>)],
         face_analysis_loaded = True, swapper_loaded = True, ticks = 6\<rparr>,
        Listening)
   \<and> fst (websocket_stream_handler sample_env empty_world 1 ''s1''
            [Receive (Some ''FACEJPG:Bob'') None,
             Receive (Some ''JPG:xframe'') None,
             Receive (Some ''JPG:xframe'') None])
       = [SendJson [(''type'', JStr ''face_set''), (''success'', JBool True)],
          SendBytes ''JPG:xframe'',
          SendBytes ''JPG:Bframe'']"
  by code_simp

section \<open>The counter when the clock does not advance\<close>

text \<open>
  Claim C7 on a clock of coarse resolution. Two frames are processed on a session
  just connected, and the clock reads the same second for both. The first call
  returns its frame and counts it. The second call increments the counter, divides
  by the zero time difference, and the exception makes it return \<open>None\<close>: a failed
  invocation has moved \<open>frames_processed\<close> from 1 to 2, where the claim asks that it
  leave the counter unchanged.
\<close>

theorem counter_moves_on_failed_invocation:
  "clock coarse_env 1 = clock coarse_env 3
   \<and> process_frame coarse_env (snd (connect empty_world 1 ''s1'')) ''s1'' ''JPG:xframe''
       = (Some ''JPG:xframe'',
          \<lparr>sessions = [(''s1'', (new_session 1)\<lparr>frames_processed := 1, last_frame_time := 1000\<rparr>)],
           face_analysis_loaded = False, swapper_loaded = False, ticks = 2\<rparr>)
   \<and> process_frame coarse_env
        \<lparr>sessions = [(''s1'', (new_session 1)\<lparr>frames_processed := 1, last_frame_time := 1000\<rparr>)],
         face_analysis_loaded = False, swapper_loaded = False, ticks = 2\<rparr>
        ''s1'' ''JPG:xframe''
       = (None,
          \<lparr>sessions = [(''s1'', (new_session 1)\<lparr>frames_processed := 2, last_frame_time := 1000\<rparr>)],
           face_analysis_loaded = False, swapper_loaded = False, ticks = 4\<rparr>)"
  by code_simp

end
